theory Spec2Isabelle
  imports Main
begin

section \<open>The Stripe webhook handler of apps/web/src/pages/api/stripe/webhook/index.ts\<close>

text \<open>
  The handler is an async function over a request, a database reached through Prisma, a
  Redis cache and a few primitives of the platform. The embedding makes each of them
  explicit:
  \<^item> the database is a record \<open>DB\<close> of tables, each table a list of rows, together with
    the list of Prisma calls issued so far (\<open>db_trace\<close>), so that "nothing is read or
    written" is a statement about the state;
  \<^item> what the handler gets from outside (the verification primitive of the Stripe
    library, the clock, the random token, the file system, the cache, the two PDF
    routines, JavaScript's \<open>Number\<close>) is a field of the record \<open>Env\<close>;
  \<^item> a thrown exception is \<open>Inl\<close> of an \<open>error\<close>; a response sent with
    \<open>res.status(n).json(...)\<close> is \<open>Inr\<close> of a \<open>Response\<close>. Writes made before a throw
    stay in the returned database: the source has no transaction and no rollback.
  Faults of the infrastructure itself (database, cache or file system unreachable) and
  the \<open>console.log\<close> lines are outside the model.
\<close>

subsection \<open>Enumerations of the Prisma client\<close>

text \<open>
  Modelled from the spec: the enumerations \<open>SubscriptionStatus\<close>, \<open>DocumentDataType\<close>,
  \<open>DocumentStatus\<close>, \<open>FieldType\<close>, \<open>ReadStatus\<close>, \<open>SendStatus\<close> and \<open>SigningStatus\<close> are
  declared in the generated Prisma client, which is not under src/. The subscription
  status has the three members the spec lists; of the others only the members the
  handler names are needed, next to one member standing for the initial value.
\<close>

datatype SubscriptionStatus = ACTIVE | PAST_DUE | INACTIVE

datatype DocumentDataType = BYTES_64 | OTHER_DATA_TYPE

datatype DocumentStatus = COMPLETED | NOT_COMPLETED

datatype FieldType = SIGNATURE | OTHER_FIELD_TYPE

datatype ReadStatus = OPENED | NOT_OPENED

datatype SendStatus = SENT | NOT_SENT

datatype SigningStatus = SIGNED | NOT_SIGNED

subsection \<open>Rows of the database\<close>

record User =
  user_id :: int
  user_name :: "string option"
  user_email :: string

record Subscription =
  sub_customerId :: string
  sub_planId :: "string option"
  sub_status :: SubscriptionStatus
  sub_cancelAtPeriodEnd :: bool
  sub_periodEnd :: "int option"
  sub_updatedAt :: int

record DocumentData =
  dd_id :: int
  dd_type :: DocumentDataType
  dd_data :: string
  dd_initialData :: string

record Document =
  doc_id :: int
  doc_title :: string
  doc_status :: DocumentStatus
  doc_userId :: int
  doc_documentDataId :: int

record Recipient =
  rcp_id :: int
  rcp_name :: string
  rcp_email :: string
  rcp_token :: string
  rcp_signedAt :: "int option"
  rcp_readStatus :: ReadStatus
  rcp_sendStatus :: SendStatus
  rcp_signingStatus :: SigningStatus
  rcp_documentId :: int

record Field =
  fld_id :: int
  fld_documentId :: int
  fld_recipientId :: int
  fld_type :: FieldType
  fld_page :: int
  fld_positionX :: int
  fld_positionY :: int
  fld_inserted :: bool
  fld_customText :: string

record Signature =
  sig_id :: int
  sig_fieldId :: int
  sig_recipientId :: int
  sig_signatureImageAsBase64 :: "string option"
  sig_typedSignature :: "string option"

text \<open>
  Columns the handler never names (keys apart: creation timestamps and other defaults of
  the schema) are left out of the rows.

  The Prisma calls of the handler, with their arguments, in the order they are issued:
\<close>

datatype db_op =
    UserFindFirst "int option"
  | SubscriptionUpdate string
  | DocumentDataCreate DocumentData
  | DocumentCreate Document
  | RecipientCreate Recipient
  | FieldCreate Field
  | SignatureCreate Signature
  | DocumentUpdate int string

record DB =
  user_tbl :: "User list"
  subscription_tbl :: "Subscription list"
  documentData_tbl :: "DocumentData list"
  document_tbl :: "Document list"
  recipient_tbl :: "Recipient list"
  field_tbl :: "Field list"
  signature_tbl :: "Signature list"
  db_trace :: "db_op list"

subsection \<open>Objects of the payment provider\<close>

record Plan =
  plan_id :: string

text \<open>\<open>subscription.customer\<close> is a string or an object with an \<open>id\<close>.\<close>

datatype Customer = CustomerString string | CustomerObject string

record StripeSubscription =
  customer :: Customer
  plan :: Plan
  status :: string
  cancel_at_period_end :: bool
  current_period_end :: int

text \<open>\<open>session.metadata\<close> is a string-keyed dictionary of strings, or null.\<close>

record Session =
  metadata :: "(string \<rightharpoonup> string) option"
  client_reference_id :: "string option"

datatype EventObject =
    SubscriptionObject StripeSubscription
  | SessionObject Session
  | OtherObject

record Event =
  event_type :: string
  event_object :: EventObject

subsection \<open>Request, response, errors, environment\<close>

text \<open>A header of a Node request is a string, an array of strings, or undefined.\<close>

datatype HeaderValue = HeaderString string | HeaderArray "string list"

record Request =
  headers :: "string \<rightharpoonup> HeaderValue"
  body :: string

record Response =
  res_status :: nat
  res_success :: bool
  res_message :: string

datatype error =
    StripeSignatureVerificationError
  | RecordNotFound
  | NoDocumentData int
  | MalformedEvent

text \<open>
  \<open>constructEvent\<close> is the verification primitive of the Stripe library: it returns the
  typed event, or throws (\<open>None\<close>). \<open>Number_js\<close> is JavaScript's \<open>Number\<close> on a string or
  null, \<open>None\<close> standing for NaN. \<open>insertImageInPDF\<close> and \<open>insertTextInPDF\<close> are the
  routines of @documenso/lib/server-only/pdf, which are not under src/: they take the
  content, the image or text, x, y and the page, and return the new content.
\<close>

record Env =
  constructEvent :: "string \<Rightarrow> string \<Rightarrow> string option \<Rightarrow> Event option"
  NEXT_PRIVATE_STRIPE_WEBHOOK_SECRET :: "string option"
  Number_js :: "string option \<Rightarrow> int option"
  redis_get :: "string \<Rightarrow> string option"
  now :: int
  readFileSync :: "string \<Rightarrow> string"
  randomBytes_hex :: string
  insertImageInPDF :: "string \<Rightarrow> string \<Rightarrow> int \<Rightarrow> int \<Rightarrow> int \<Rightarrow> string"
  insertTextInPDF :: "string \<Rightarrow> string \<Rightarrow> int \<Rightarrow> int \<Rightarrow> int \<Rightarrow> string"

subsection \<open>JavaScript's truthiness on optional strings\<close>

text \<open>null, undefined and the empty string are falsy; every other string is truthy.\<close>

definition truthy :: "string option \<Rightarrow> bool" where
  "truthy v = (case v of None \<Rightarrow> False | Some s \<Rightarrow> s \<noteq> [])"

text \<open>\<open>a || b\<close>\<close>

definition js_or :: "string option \<Rightarrow> string option \<Rightarrow> string option" where
  "js_or a b = (if truthy a then a else b)"

text \<open>\<open>a ?? ''\<close>\<close>

definition or_empty :: "string option \<Rightarrow> string" where
  "or_empty a = (case a of None \<Rightarrow> [] | Some s \<Rightarrow> s)"

subsection \<open>The Prisma calls\<close>

text \<open>
  An autoincremented key: larger than every key of the table. With it a created row is
  the only row of its table under its key.
\<close>

definition next_id :: "int list \<Rightarrow> int" where
  "next_id ks = foldr max ks 0 + 1"

definition logged :: "db_op \<Rightarrow> DB \<Rightarrow> DB" where
  "logged op db = db\<lparr>db_trace := db_trace db @ [op]\<rparr>"

text \<open>
  \<open>prisma.subscription.update\<close> by the unique key \<open>customerId\<close> (lines 225-236): the rows
  under that key take the new values; when there is none the call throws.
\<close>

definition subscription_update ::
  "string \<Rightarrow> string \<Rightarrow> SubscriptionStatus \<Rightarrow> bool \<Rightarrow> int \<Rightarrow> int \<Rightarrow> DB \<Rightarrow> (error + unit) \<times> DB" where
  "subscription_update customerId planId st cancelAtPeriodEnd periodEnd updatedAt db =
     (if \<exists>r \<in> set (subscription_tbl db). sub_customerId r = customerId
      then (Inr (),
            logged (SubscriptionUpdate customerId)
              (db\<lparr>subscription_tbl :=
                    map (\<lambda>r. if sub_customerId r = customerId
                              then r\<lparr>sub_planId := Some planId,
                                     sub_status := st,
                                     sub_cancelAtPeriodEnd := cancelAtPeriodEnd,
                                     sub_periodEnd := Some periodEnd,
                                     sub_updatedAt := updatedAt\<rparr>
                              else r)
                        (subscription_tbl db)\<rparr>))
      else (Inl RecordNotFound, logged (SubscriptionUpdate customerId) db))"

subsection \<open>handleCustomerSubscriptionUpdated (lines 213-237)\<close>

text \<open>Lines 217-218: the customer reference as a plain identifier.\<close>

definition customerId_of :: "Customer \<Rightarrow> string" where
  "customerId_of c = (case c of CustomerString s \<Rightarrow> s | CustomerObject i \<Rightarrow> i)"

text \<open>Lines 220-223: the \<open>match\<close> on \<open>subscription.status\<close>.\<close>

definition match_status :: "string \<Rightarrow> SubscriptionStatus" where
  "match_status s =
     (if s = ''active'' then ACTIVE
      else if s = ''past_due'' then PAST_DUE
      else INACTIVE)"

definition handleCustomerSubscriptionUpdated ::
  "Env \<Rightarrow> StripeSubscription \<Rightarrow> DB \<Rightarrow> (error + unit) \<times> DB" where
  "handleCustomerSubscriptionUpdated env subscription db =
     (let customerId = customerId_of (customer subscription);
          st = match_status (status subscription)
      in subscription_update customerId (plan_id (plan subscription)) st
           (cancel_at_period_end subscription)
           (current_period_end subscription * 1000)
           (now env) db)"

subsection \<open>The Prisma calls of the provisioning path\<close>

text \<open>
  \<open>prisma.user.findFirst\<close> by id (lines 77-81): the first row under the id. For an id
  that is NaN the call is taken to find no row; the properties below that speak of a
  found user do not depend on it.
\<close>

definition user_findFirst :: "int option \<Rightarrow> DB \<Rightarrow> User option \<times> DB" where
  "user_findFirst i db =
     ((case i of None \<Rightarrow> None
               | Some k \<Rightarrow> find (\<lambda>u. user_id u = k) (user_tbl db)),
      logged (UserFindFirst i) db)"

text \<open>\<open>prisma.documentData.create\<close> (lines 105-111).\<close>

definition documentData_create ::
  "DocumentDataType \<Rightarrow> string \<Rightarrow> string \<Rightarrow> DB \<Rightarrow> DocumentData \<times> DB" where
  "documentData_create ty dat initialData db =
     (let row = \<lparr>dd_id = next_id (map dd_id (documentData_tbl db)), dd_type = ty,
                 dd_data = dat, dd_initialData = initialData\<rparr>
      in (row, logged (DocumentDataCreate row)
                 (db\<lparr>documentData_tbl := documentData_tbl db @ [row]\<rparr>)))"

text \<open>
  \<open>prisma.document.create\<close> with \<open>include: {documentData: true}\<close> (lines 113-123): the
  created row, and the DocumentData row its \<open>documentDataId\<close> refers to, if any.
\<close>

definition document_create ::
  "string \<Rightarrow> DocumentStatus \<Rightarrow> int \<Rightarrow> int \<Rightarrow> DB \<Rightarrow> (Document \<times> DocumentData option) \<times> DB" where
  "document_create title st userId documentDataId db =
     (let row = \<lparr>doc_id = next_id (map doc_id (document_tbl db)), doc_title = title,
                 doc_status = st, doc_userId = userId,
                 doc_documentDataId = documentDataId\<rparr>
      in ((row, find (\<lambda>d. dd_id d = documentDataId) (documentData_tbl db)),
          logged (DocumentCreate row) (db\<lparr>document_tbl := document_tbl db @ [row]\<rparr>)))"

text \<open>\<open>prisma.recipient.create\<close> (lines 131-142).\<close>

definition recipient_create ::
  "string \<Rightarrow> string \<Rightarrow> string \<Rightarrow> int \<Rightarrow> ReadStatus \<Rightarrow> SendStatus \<Rightarrow> SigningStatus \<Rightarrow> int \<Rightarrow> DB
     \<Rightarrow> Recipient \<times> DB" where
  "recipient_create name email token signedAt readStatus sendStatus signingStatus documentId db =
     (let row = \<lparr>rcp_id = next_id (map rcp_id (recipient_tbl db)), rcp_name = name,
                 rcp_email = email, rcp_token = token, rcp_signedAt = Some signedAt,
                 rcp_readStatus = readStatus, rcp_sendStatus = sendStatus,
                 rcp_signingStatus = signingStatus, rcp_documentId = documentId\<rparr>
      in (row, logged (RecipientCreate row) (db\<lparr>recipient_tbl := recipient_tbl db @ [row]\<rparr>)))"

text \<open>\<open>prisma.field.create\<close> (lines 144-155).\<close>

definition field_create ::
  "int \<Rightarrow> int \<Rightarrow> FieldType \<Rightarrow> int \<Rightarrow> int \<Rightarrow> int \<Rightarrow> bool \<Rightarrow> string \<Rightarrow> DB \<Rightarrow> Field \<times> DB" where
  "field_create documentId recipientId ty page positionX positionY inserted customText db =
     (let row = \<lparr>fld_id = next_id (map fld_id (field_tbl db)), fld_documentId = documentId,
                 fld_recipientId = recipientId, fld_type = ty, fld_page = page,
                 fld_positionX = positionX, fld_positionY = positionY,
                 fld_inserted = inserted, fld_customText = customText\<rparr>
      in (row, logged (FieldCreate row) (db\<lparr>field_tbl := field_tbl db @ [row]\<rparr>)))"

text \<open>\<open>prisma.signature.create\<close> (lines 176-183).\<close>

definition signature_create ::
  "int \<Rightarrow> int \<Rightarrow> string option \<Rightarrow> string option \<Rightarrow> DB \<Rightarrow> Signature \<times> DB" where
  "signature_create fieldId recipientId signatureImageAsBase64 typedSignature db =
     (let row = \<lparr>sig_id = next_id (map sig_id (signature_tbl db)), sig_fieldId = fieldId,
                 sig_recipientId = recipientId,
                 sig_signatureImageAsBase64 = signatureImageAsBase64,
                 sig_typedSignature = typedSignature\<rparr>
      in (row, logged (SignatureCreate row) (db\<lparr>signature_tbl := signature_tbl db @ [row]\<rparr>)))"

text \<open>
  \<open>prisma.document.update\<close> by id with the nested \<open>documentData: {update: {data}}\<close>
  (lines 184-195): the DocumentData row of that document takes the new \<open>data\<close>; no other
  column and no other table is touched. Without a document under the id the call throws.
\<close>

definition document_update :: "int \<Rightarrow> string \<Rightarrow> DB \<Rightarrow> (error + unit) \<times> DB" where
  "document_update documentId dat db =
     (case find (\<lambda>d. doc_id d = documentId) (document_tbl db) of
        None \<Rightarrow> (Inl RecordNotFound, logged (DocumentUpdate documentId dat) db)
      | Some d \<Rightarrow>
          (Inr (),
           logged (DocumentUpdate documentId dat)
             (db\<lparr>documentData_tbl :=
                   map (\<lambda>r. if dd_id r = doc_documentDataId d then r\<lparr>dd_data := dat\<rparr> else r)
                       (documentData_tbl db)\<rparr>)))"

subsection \<open>The provisioning path (lines 90-196)\<close>

text \<open>\<open>session.metadata?.k\<close>\<close>

definition meta :: "Session \<Rightarrow> string \<Rightarrow> string option" where
  "meta session k = (case metadata session of None \<Rightarrow> None | Some m \<Rightarrow> m k)"

text \<open>
  Lines 91-99: the signature image behind the reference of the metadata, or the empty
  string when there is no reference, no entry in the cache, or an empty entry.
\<close>

definition signatureDataUrl_of :: "Env \<Rightarrow> Session \<Rightarrow> string" where
  "signatureDataUrl_of env session =
     (if truthy (meta session ''signatureDataUrl'')
      then (let result = redis_get env (''signature:'' @ or_empty (meta session ''signatureDataUrl''))
            in if truthy result then or_empty result else [])
      else [])"

text \<open>Line 90: \<open>session.metadata?.signatureText || user.name\<close>.\<close>

definition signatureText_of :: "Session \<Rightarrow> User \<Rightarrow> string option" where
  "signatureText_of session user = js_or (meta session ''signatureText'') (user_name user)"

text \<open>Line 103: the template, read from a fixed path, in base64.\<close>

definition bytes64_of :: "Env \<Rightarrow> string" where
  "bytes64_of env = readFileSync env ''./public/documenso-supporter-pledge.pdf''"

text \<open>
  Lines 157-173: the signer's mark drawn into the content, at the position and page of
  the field: the image when there is one, the text otherwise.
\<close>

definition insert_mark :: "Env \<Rightarrow> string \<Rightarrow> string option \<Rightarrow> Field \<Rightarrow> string \<Rightarrow> string" where
  "insert_mark env signatureDataUrl signatureText field dat =
     (if signatureDataUrl \<noteq> []
      then insertImageInPDF env dat signatureDataUrl
             (fld_positionX field) (fld_positionY field) (fld_page field)
      else insertTextInPDF env dat (or_empty signatureText)
             (fld_positionX field) (fld_positionY field) (fld_page field))"

text \<open>
  Lines 90-196, after the user has been found. The two writes of \<open>Promise.all\<close> touch
  different tables; they are taken in the order they are listed.
\<close>

definition provision :: "Env \<Rightarrow> Session \<Rightarrow> User \<Rightarrow> DB \<Rightarrow> (error + unit) \<times> DB" where
  "provision env session user db =
     (let signatureText = signatureText_of session user;
          signatureDataUrl = signatureDataUrl_of env session;
          bytes64 = bytes64_of env;
          (dd, db1) = documentData_create BYTES_64 bytes64 bytes64 db;
          ((document, documentData), db2) =
             document_create ''Documenso Supporter Pledge.pdf'' COMPLETED (user_id user)
               (dd_id dd) db1
      in case documentData of
           None \<Rightarrow> (Inl (NoDocumentData (doc_id document)), db2)
         | Some documentData \<Rightarrow>
             (let (recipient, db3) =
                    recipient_create (or_empty (user_name user)) (user_email user)
                      (randomBytes_hex env) (now env) OPENED SENT SIGNED (doc_id document) db2;
                  (field, db4) =
                    field_create (doc_id document) (rcp_id recipient) SIGNATURE 0 77 638 False []
                      db3;
                  dat = insert_mark env signatureDataUrl signatureText field
                          (dd_data documentData);
                  (signature, db5) =
                    signature_create (fld_id field) (rcp_id recipient)
                      (if signatureDataUrl \<noteq> [] then Some signatureDataUrl else None)
                      (if signatureDataUrl \<noteq> [] then Some [] else signatureText) db4
              in document_update (doc_id document) dat db5))"

subsection \<open>The handler (lines 29-211)\<close>

text \<open>Lines 37-38: the header when it is a string, the empty string otherwise.\<close>

definition sig_of :: "Request \<Rightarrow> string" where
  "sig_of req =
     (case headers req ''stripe-signature'' of
        Some (HeaderString s) \<Rightarrow> s
      | _ \<Rightarrow> [])"

definition json :: "nat \<Rightarrow> bool \<Rightarrow> string \<Rightarrow> Response" where
  "json code ok msg = \<lparr>res_status = code, res_success = ok, res_message = msg\<rparr>"

text \<open>
  The casts of \<open>event.data.object\<close> (lines 61 and 74) are unchecked; the provider sends a
  subscription with a subscription event and a session with a checkout event. An event
  whose object is of another kind is outside that contract and is the error
  \<open>MalformedEvent\<close> here.
\<close>

definition handler :: "Env \<Rightarrow> Request \<Rightarrow> DB \<Rightarrow> (error + Response) \<times> DB" where
  "handler env req db =
     (let sig = sig_of req
      in if sig = [] then (Inr (json 400 False ''No signature found in request''), db)
         else
           case constructEvent env (body req) sig (NEXT_PRIVATE_STRIPE_WEBHOOK_SECRET env) of
             None \<Rightarrow> (Inl StripeSignatureVerificationError, db)
           | Some event \<Rightarrow>
               if event_type event = ''customer.subscription.updated'' then
                 (case event_object event of
                    SubscriptionObject subscription \<Rightarrow>
                      (case handleCustomerSubscriptionUpdated env subscription db of
                         (Inl e, db') \<Rightarrow> (Inl e, db')
                       | (Inr _, db') \<Rightarrow> (Inr (json 200 True ''Webhook received''), db'))
                  | _ \<Rightarrow> (Inl MalformedEvent, db))
               else if event_type event = ''checkout.session.completed'' then
                 (case event_object event of
                    SessionObject session \<Rightarrow>
                      if meta session ''source'' = Some ''landing'' then
                        (case user_findFirst (Number_js env (client_reference_id session)) db of
                           (None, db') \<Rightarrow> (Inr (json 500 False ''User not found''), db')
                         | (Some user, db') \<Rightarrow>
                             (case provision env session user db' of
                                (Inl e, db'') \<Rightarrow> (Inl e, db'')
                              | (Inr _, db'') \<Rightarrow>
                                  (Inr (json 200 True ''Webhook received''), db'')))
                      else (Inr (json 200 True ''Webhook received''), db)
                  | _ \<Rightarrow> (Inl MalformedEvent, db))
               else (Inr (json 400 False ''Unhandled webhook event''), db))"

subsection \<open>The rows and the content a provisioning run produces\<close>

text \<open>
  The arguments of the create calls of lines 105-183 over the keys the tables hand out,
  named so that the outcome of \<open>provision\<close> can be written down in one equation.
\<close>

definition created_field :: "DB \<Rightarrow> Field" where
  "created_field db =
     \<lparr>fld_id = next_id (map fld_id (field_tbl db)),
      fld_documentId = next_id (map doc_id (document_tbl db)),
      fld_recipientId = next_id (map rcp_id (recipient_tbl db)),
      fld_type = SIGNATURE, fld_page = 0, fld_positionX = 77, fld_positionY = 638,
      fld_inserted = False, fld_customText = []\<rparr>"

definition signed_data :: "Env \<Rightarrow> Session \<Rightarrow> User \<Rightarrow> DB \<Rightarrow> string" where
  "signed_data env session user db =
     insert_mark env (signatureDataUrl_of env session) (signatureText_of session user)
       (created_field db) (bytes64_of env)"

definition created_documentData :: "Env \<Rightarrow> DB \<Rightarrow> string \<Rightarrow> DocumentData" where
  "created_documentData env db dat =
     \<lparr>dd_id = next_id (map dd_id (documentData_tbl db)), dd_type = BYTES_64,
      dd_data = dat, dd_initialData = bytes64_of env\<rparr>"

definition created_document :: "User \<Rightarrow> DB \<Rightarrow> Document" where
  "created_document user db =
     \<lparr>doc_id = next_id (map doc_id (document_tbl db)),
      doc_title = ''Documenso Supporter Pledge.pdf'', doc_status = COMPLETED,
      doc_userId = user_id user,
      doc_documentDataId = next_id (map dd_id (documentData_tbl db))\<rparr>"

definition created_recipient :: "Env \<Rightarrow> User \<Rightarrow> DB \<Rightarrow> Recipient" where
  "created_recipient env user db =
     \<lparr>rcp_id = next_id (map rcp_id (recipient_tbl db)),
      rcp_name = or_empty (user_name user), rcp_email = user_email user,
      rcp_token = randomBytes_hex env, rcp_signedAt = Some (now env),
      rcp_readStatus = OPENED, rcp_sendStatus = SENT, rcp_signingStatus = SIGNED,
      rcp_documentId = next_id (map doc_id (document_tbl db))\<rparr>"

definition created_signature :: "Env \<Rightarrow> Session \<Rightarrow> User \<Rightarrow> DB \<Rightarrow> Signature" where
  "created_signature env session user db =
     \<lparr>sig_id = next_id (map sig_id (signature_tbl db)),
      sig_fieldId = next_id (map fld_id (field_tbl db)),
      sig_recipientId = next_id (map rcp_id (recipient_tbl db)),
      sig_signatureImageAsBase64 =
        (if signatureDataUrl_of env session \<noteq> [] then Some (signatureDataUrl_of env session)
         else None),
      sig_typedSignature =
        (if signatureDataUrl_of env session \<noteq> [] then Some []
         else signatureText_of session user)\<rparr>"

subsection \<open>Vocabulary of the properties\<close>

text \<open>
  The request carries a non-empty signature header and the verification primitive
  accepts it, yielding the event \<open>ev\<close>.
\<close>

definition delivers :: "Env \<Rightarrow> Request \<Rightarrow> Event \<Rightarrow> bool" where
  "delivers env req ev \<longleftrightarrow>
     sig_of req \<noteq> [] \<and>
     constructEvent env (body req) (sig_of req) (NEXT_PRIVATE_STRIPE_WEBHOOK_SECRET env) = Some ev"

definition subscription_updated :: "StripeSubscription \<Rightarrow> Event" where
  "subscription_updated subscription =
     \<lparr>event_type = ''customer.subscription.updated'',
      event_object = SubscriptionObject subscription\<rparr>"

definition checkout_completed :: "Session \<Rightarrow> Event" where
  "checkout_completed session =
     \<lparr>event_type = ''checkout.session.completed'', event_object = SessionObject session\<rparr>"

text \<open>
  A checkout-completion event tagged "landing" is delivered and its client reference
  resolves to the user \<open>user\<close>.
\<close>

definition landing_run :: "Env \<Rightarrow> Request \<Rightarrow> DB \<Rightarrow> Session \<Rightarrow> User \<Rightarrow> bool" where
  "landing_run env req db session user \<longleftrightarrow>
     delivers env req (checkout_completed session) \<and>
     meta session ''source'' = Some ''landing'' \<and>
     fst (user_findFirst (Number_js env (client_reference_id session)) db) = Some user"

text \<open>
  The state of a subscription row with respect to its key, plan id, status,
  cancel-at-period-end flag and period end (everything but \<open>updatedAt\<close>).
\<close>

definition sub_state ::
  "Subscription \<Rightarrow> string \<times> string option \<times> SubscriptionStatus \<times> bool \<times> int option" where
  "sub_state r =
     (sub_customerId r, sub_planId r, sub_status r, sub_cancelAtPeriodEnd r, sub_periodEnd r)"

text \<open>
  Modelled from the spec: \<open>insertImageInPDF\<close> of @documenso/lib/server-only/pdf is not
  under src/. The spec (4.4, step 8) says that drawing the image at the field's position
  and page "produces new binary content that must replace the DocumentData's data
  field": the content returned is not the content given.
\<close>

definition image_insertion_produces_new_content :: "Env \<Rightarrow> bool" where
  "image_insertion_produces_new_content env \<longleftrightarrow>
     (\<forall>pdf img x y page. insertImageInPDF env pdf img x y page \<noteq> pdf)"

subsection \<open>A concrete environment, database and requests\<close>

text \<open>
  Stand-ins for the collaborators, to run the handler on: a verification primitive that
  accepts the signature equal to the secret and reads the event off the body, a cache
  with one entry, PDF routines that append a note of what was drawn.
\<close>

definition demo_subscription :: StripeSubscription where
  "demo_subscription =
     \<lparr>customer = CustomerString ''cus_1'', plan = \<lparr>plan_id = ''plan_pro''\<rparr>,
      status = ''unpaid'', cancel_at_period_end = True, current_period_end = 1700000000\<rparr>"

definition demo_unknown_subscription :: StripeSubscription where
  "demo_unknown_subscription =
     \<lparr>customer = CustomerObject ''cus_404'', plan = \<lparr>plan_id = ''plan_pro''\<rparr>,
      status = ''active'', cancel_at_period_end = False, current_period_end = 1700000000\<rparr>"

definition demo_session_image :: Session where
  "demo_session_image =
     \<lparr>metadata = Some [''source'' \<mapsto> ''landing'', ''signatureDataUrl'' \<mapsto> ''ref1'',
                       ''signatureText'' \<mapsto> ''Ada L.''],
      client_reference_id = Some ''1''\<rparr>"

definition demo_session_text :: Session where
  "demo_session_text =
     \<lparr>metadata = Some [''source'' \<mapsto> ''landing'', ''signatureDataUrl'' \<mapsto> ''gone''],
      client_reference_id = Some ''1''\<rparr>"

definition demo_session_anonymous :: Session where
  "demo_session_anonymous =
     \<lparr>metadata = Some [''source'' \<mapsto> ''landing''], client_reference_id = Some ''2''\<rparr>"

definition demo_session_other :: Session where
  "demo_session_other =
     \<lparr>metadata = Some [''source'' \<mapsto> ''app''], client_reference_id = Some ''1''\<rparr>"

definition demo_constructEvent :: "string \<Rightarrow> string \<Rightarrow> string option \<Rightarrow> Event option" where
  "demo_constructEvent b sg secret =
     (if secret \<noteq> Some sg then None
      else if b = ''subscription'' then Some (subscription_updated demo_subscription)
      else if b = ''unknown customer'' then Some (subscription_updated demo_unknown_subscription)
      else if b = ''image'' then Some (checkout_completed demo_session_image)
      else if b = ''text'' then Some (checkout_completed demo_session_text)
      else if b = ''anonymous'' then Some (checkout_completed demo_session_anonymous)
      else if b = ''other'' then Some (checkout_completed demo_session_other)
      else None)"

definition demo_env :: Env where
  "demo_env =
     \<lparr>constructEvent = demo_constructEvent,
      NEXT_PRIVATE_STRIPE_WEBHOOK_SECRET = Some ''whsec'',
      Number_js = (\<lambda>s. if s = Some ''1'' then Some 1 else if s = Some ''2'' then Some 2
                        else None),
      redis_get = (\<lambda>k. if k = ''signature:ref1'' then Some ''data:image/png;base64,iVBOR''
                        else None),
      now = 1700000123456,
      readFileSync = (\<lambda>path. ''JVBERi0xLjc=''),
      randomBytes_hex = ''00112233445566778899aabbccddeeff'',
      insertImageInPDF = (\<lambda>pdf img x y page. pdf @ ''+image''),
      insertTextInPDF = (\<lambda>pdf txt x y page. pdf @ ''+text'')\<rparr>"

definition demo_request :: "string \<Rightarrow> Request" where
  "demo_request b = \<lparr>headers = [''stripe-signature'' \<mapsto> HeaderString ''whsec''], body = b\<rparr>"

definition demo_forged_request :: Request where
  "demo_forged_request =
     \<lparr>headers = [''stripe-signature'' \<mapsto> HeaderString ''forged''], body = ''subscription''\<rparr>"

definition demo_unsigned_request :: Request where
  "demo_unsigned_request = \<lparr>headers = Map.empty, body = ''subscription''\<rparr>"

definition demo_user_ada :: User where
  "demo_user_ada = \<lparr>user_id = 1, user_name = Some ''Ada'', user_email = ''ada@example.org''\<rparr>"

definition demo_user_anonymous :: User where
  "demo_user_anonymous = \<lparr>user_id = 2, user_name = None, user_email = ''anon@example.org''\<rparr>"

definition demo_db :: DB where
  "demo_db =
     \<lparr>user_tbl = [demo_user_ada, demo_user_anonymous],
      subscription_tbl =
        [\<lparr>sub_customerId = ''cus_1'', sub_planId = None, sub_status = ACTIVE,
          sub_cancelAtPeriodEnd = False, sub_periodEnd = None, sub_updatedAt = 0\<rparr>,
         \<lparr>sub_customerId = ''cus_2'', sub_planId = Some ''plan_free'', sub_status = PAST_DUE,
          sub_cancelAtPeriodEnd = False, sub_periodEnd = Some 5, sub_updatedAt = 1\<rparr>],
      documentData_tbl = [], document_tbl = [], recipient_tbl = [], field_tbl = [],
      signature_tbl = [], db_trace = []\<rparr>"

section \<open>Properties\<close>

subsection \<open>Keys and the outcome of a provisioning run\<close>

lemma next_id_gt: "k \<in> set ks \<Longrightarrow> k < next_id ks"
  unfolding next_id_def by (induction ks) auto

lemma next_id_fresh: "\<forall>r \<in> set rows. key r \<noteq> next_id (map key rows)"
  using next_id_gt[of _ "map key rows"] by fastforce

lemma find_append_new:
  "\<forall>r \<in> set rows. key r \<noteq> key new \<Longrightarrow> find (\<lambda>r. key r = key new) (rows @ [new]) = Some new"
  by (induction rows) auto

lemma map_upd_fresh:
  "\<forall>r \<in> set rows. key r \<noteq> k \<Longrightarrow> map (\<lambda>r. if key r = k then f r else r) rows = rows"
  by (induction rows) auto

lemma find_created:
  "key new = next_id (map key rows) \<Longrightarrow>
   find (\<lambda>r. key r = next_id (map key rows)) (rows @ [new]) = Some new"
  using find_append_new[of rows key new] next_id_fresh[of rows key] by simp

lemma update_fresh:
  "map (\<lambda>r. if key r = next_id (map key rows) then f r else r) rows = rows"
  using map_upd_fresh[of rows key "next_id (map key rows)" f] next_id_fresh[of rows key] by simp

lemma provision_eq:
  "provision env session user db =
     (Inr (),
      db\<lparr>documentData_tbl :=
           documentData_tbl db @ [created_documentData env db (signed_data env session user db)],
         document_tbl := document_tbl db @ [created_document user db],
         recipient_tbl := recipient_tbl db @ [created_recipient env user db],
         field_tbl := field_tbl db @ [created_field db],
         signature_tbl := signature_tbl db @ [created_signature env session user db],
         db_trace := db_trace db @
           [DocumentDataCreate (created_documentData env db (bytes64_of env)),
            DocumentCreate (created_document user db),
            RecipientCreate (created_recipient env user db),
            FieldCreate (created_field db),
            SignatureCreate (created_signature env session user db),
            DocumentUpdate (next_id (map doc_id (document_tbl db)))
              (signed_data env session user db)]\<rparr>)"
  unfolding provision_def documentData_create_def document_create_def recipient_create_def
    field_create_def signature_create_def document_update_def logged_def
    created_documentData_def created_document_def created_recipient_def created_field_def
    created_signature_def signed_data_def
  by (simp add: Let_def find_created update_fresh)

subsection \<open>The handler on a delivered event\<close>

lemma handler_subscription:
  assumes "delivers env req (subscription_updated subscription)"
  shows "handler env req db =
     (case handleCustomerSubscriptionUpdated env subscription db of
        (Inl e, db') \<Rightarrow> (Inl e, db')
      | (Inr _, db') \<Rightarrow> (Inr (json 200 True ''Webhook received''), db'))"
  using assms unfolding delivers_def subscription_updated_def handler_def
  by (simp add: Let_def)

lemma handler_checkout:
  assumes "delivers env req (checkout_completed session)"
  shows "handler env req db =
     (if meta session ''source'' = Some ''landing'' then
        (case user_findFirst (Number_js env (client_reference_id session)) db of
           (None, db') \<Rightarrow> (Inr (json 500 False ''User not found''), db')
         | (Some user, db') \<Rightarrow>
             (case provision env session user db' of
                (Inl e, db'') \<Rightarrow> (Inl e, db'')
              | (Inr _, db'') \<Rightarrow> (Inr (json 200 True ''Webhook received''), db'')))
      else (Inr (json 200 True ''Webhook received''), db))"
  using assms unfolding delivers_def checkout_completed_def handler_def
  by (simp add: Let_def)

lemma handler_landing:
  assumes "landing_run env req db session user"
  shows "handler env req db =
     (Inr (json 200 True ''Webhook received''),
      snd (provision env session user
             (logged (UserFindFirst (Number_js env (client_reference_id session))) db)))"
  using assms unfolding landing_run_def
  by (auto simp: handler_checkout user_findFirst_def provision_eq)

lemma hcsu_found:
  assumes "\<exists>r \<in> set (subscription_tbl db).
             sub_customerId r = customerId_of (customer subscription)"
  shows "handleCustomerSubscriptionUpdated env subscription db =
     (Inr (),
      logged (SubscriptionUpdate (customerId_of (customer subscription)))
        (db\<lparr>subscription_tbl :=
              map (\<lambda>r. if sub_customerId r = customerId_of (customer subscription)
                        then r\<lparr>sub_planId := Some (plan_id (plan subscription)),
                               sub_status := match_status (status subscription),
                               sub_cancelAtPeriodEnd := cancel_at_period_end subscription,
                               sub_periodEnd := Some (current_period_end subscription * 1000),
                               sub_updatedAt := now env\<rparr>
                        else r)
                  (subscription_tbl db)\<rparr>))"
  using assms unfolding handleCustomerSubscriptionUpdated_def subscription_update_def
  by (simp add: Let_def)

lemma hcsu_missing:
  assumes "\<forall>r \<in> set (subscription_tbl db).
             sub_customerId r \<noteq> customerId_of (customer subscription)"
  shows "handleCustomerSubscriptionUpdated env subscription db =
     (Inl RecordNotFound,
      logged (SubscriptionUpdate (customerId_of (customer subscription))) db)"
  using assms unfolding handleCustomerSubscriptionUpdated_def subscription_update_def
  by (simp add: Let_def)

subsection \<open>Subscription updates\<close>

lemma updated_row_exists:
  "\<exists>r \<in> set rows. key r = k \<Longrightarrow> (\<And>r. key (f r) = key r) \<Longrightarrow>
   \<exists>r \<in> set (map (\<lambda>r. if key r = k then f r else r) rows). key r = k"
  by (induction rows) auto

text \<open>
  C5. On a delivered customer.subscription.updated event the rows of the event's
  customer take the status ACTIVE for "active", PAST_DUE for "past_due" and INACTIVE for
  every other string, among them "canceled", "unpaid" and the empty string; the other
  rows keep theirs. The handler answers HTTP 200 whenever the customer has a row,
  whatever the status string; the only failure is the missing row.
\<close>

theorem C5_status_mapping:
  assumes "delivers env req (subscription_updated subscription)"
  shows "fst (handler env req db) =
           (if \<exists>r \<in> set (subscription_tbl db).
                 sub_customerId r = customerId_of (customer subscription)
            then Inr \<lparr>res_status = 200, res_success = True, res_message = ''Webhook received''\<rparr>
            else Inl RecordNotFound)
       \<and> map sub_status (subscription_tbl (snd (handler env req db))) =
           map (\<lambda>r. if sub_customerId r = customerId_of (customer subscription)
                     then (if status subscription = ''active'' then ACTIVE
                           else if status subscription = ''past_due'' then PAST_DUE
                           else INACTIVE)
                     else sub_status r)
               (subscription_tbl db)
       \<and> map sub_customerId (subscription_tbl (snd (handler env req db))) =
           map sub_customerId (subscription_tbl db)
       \<and> match_status ''active'' = ACTIVE \<and> match_status ''past_due'' = PAST_DUE
       \<and> match_status ''canceled'' = INACTIVE \<and> match_status ''unpaid'' = INACTIVE
       \<and> match_status [] = INACTIVE"
proof (cases "\<exists>r \<in> set (subscription_tbl db).
                 sub_customerId r = customerId_of (customer subscription)")
  case True
  show ?thesis
    unfolding handler_subscription[OF assms] hcsu_found[OF True]
    using True by (simp add: json_def logged_def match_status_def)
next
  case False
  then have m: "\<forall>r \<in> set (subscription_tbl db).
      sub_customerId r \<noteq> customerId_of (customer subscription)" by blast
  show ?thesis
    unfolding handler_subscription[OF assms] hcsu_missing[OF m]
    using m by (simp add: logged_def match_status_def)
qed

text \<open>The status "unpaid" for the customer cus_1 of the concrete database.\<close>

theorem C5_status_mapping_witness:
  "delivers demo_env (demo_request ''subscription'') (subscription_updated demo_subscription)
   \<and> status demo_subscription = ''unpaid''
   \<and> fst (handler demo_env (demo_request ''subscription'') demo_db) =
       Inr \<lparr>res_status = 200, res_success = True, res_message = ''Webhook received''\<rparr>
   \<and> map sub_customerId
        (subscription_tbl (snd (handler demo_env (demo_request ''subscription'') demo_db)))
     = [''cus_1'', ''cus_2'']
   \<and> map sub_status
        (subscription_tbl (snd (handler demo_env (demo_request ''subscription'') demo_db)))
     = [INACTIVE, PAST_DUE]"
proof -
  have d: "delivers demo_env (demo_request ''subscription'')
             (subscription_updated demo_subscription)"
    by (simp add: delivers_def demo_env_def demo_request_def sig_of_def demo_constructEvent_def)
  from C5_status_mapping[OF d, of demo_db] d show ?thesis
    by (simp add: demo_db_def demo_subscription_def customerId_of_def)
qed

text \<open>
  C6. Replaying the identical customer.subscription.updated event (the clock may have
  moved between the two deliveries) on a customer with a subscription row: both
  deliveries are answered with HTTP 200, and after the second one every subscription row
  has the key, plan id, status, cancel-at-period-end flag and period end it had after
  the first. With the same clock the whole table is the same.
\<close>

theorem C6_replay_idempotent:
  assumes "delivers env1 req (subscription_updated subscription)"
    and "delivers env2 req (subscription_updated subscription)"
    and "\<exists>r \<in> set (subscription_tbl db). sub_customerId r = customerId_of (customer subscription)"
  shows "fst (handler env1 req db) =
           Inr \<lparr>res_status = 200, res_success = True, res_message = ''Webhook received''\<rparr>
       \<and> fst (handler env2 req (snd (handler env1 req db))) =
           Inr \<lparr>res_status = 200, res_success = True, res_message = ''Webhook received''\<rparr>
       \<and> map sub_state (subscription_tbl (snd (handler env2 req (snd (handler env1 req db)))))
         = map sub_state (subscription_tbl (snd (handler env1 req db)))
       \<and> (now env2 = now env1 \<longrightarrow>
            subscription_tbl (snd (handler env2 req (snd (handler env1 req db))))
            = subscription_tbl (snd (handler env1 req db)))"
proof -
  let ?cid = "customerId_of (customer subscription)"
  let ?f = "\<lambda>env r. r\<lparr>sub_planId := Some (plan_id (plan subscription)),
                    sub_status := match_status (status subscription),
                    sub_cancelAtPeriodEnd := cancel_at_period_end subscription,
                    sub_periodEnd := Some (current_period_end subscription * 1000),
                    sub_updatedAt := now env\<rparr>"
  let ?g = "\<lambda>env r. if sub_customerId r = ?cid then ?f env r else r"
  let ?db1 = "snd (handler env1 req db)"
  have h1: "handler env1 req db =
      (Inr (json 200 True ''Webhook received''),
       logged (SubscriptionUpdate ?cid)
         (db\<lparr>subscription_tbl := map (?g env1) (subscription_tbl db)\<rparr>))"
    by (simp add: handler_subscription[OF assms(1)] hcsu_found[OF assms(3)])
  have tbl1: "subscription_tbl ?db1 = map (?g env1) (subscription_tbl db)"
    by (simp add: h1 logged_def)
  have ex1: "\<exists>r \<in> set (subscription_tbl ?db1). sub_customerId r = ?cid"
    unfolding tbl1 using assms(3) by (rule updated_row_exists) simp
  have h2: "handler env2 req ?db1 =
      (Inr (json 200 True ''Webhook received''),
       logged (SubscriptionUpdate ?cid)
         (?db1\<lparr>subscription_tbl := map (?g env2) (subscription_tbl ?db1)\<rparr>))"
    by (simp add: handler_subscription[OF assms(2)] hcsu_found[OF ex1])
  have tbl2: "subscription_tbl (snd (handler env2 req ?db1))
      = map (?g env2) (map (?g env1) (subscription_tbl db))"
    by (simp add: h2 logged_def tbl1)
  have r1: "fst (handler env1 req db) =
      Inr \<lparr>res_status = 200, res_success = True, res_message = ''Webhook received''\<rparr>"
    by (simp add: h1 json_def)
  have r2: "fst (handler env2 req ?db1) =
      Inr \<lparr>res_status = 200, res_success = True, res_message = ''Webhook received''\<rparr>"
    by (simp add: h2 json_def)
  have st: "map sub_state (subscription_tbl (snd (handler env2 req ?db1)))
      = map sub_state (subscription_tbl ?db1)"
    unfolding tbl2 tbl1 by (simp add: sub_state_def)
  have same: "now env2 = now env1 \<longrightarrow>
      subscription_tbl (snd (handler env2 req ?db1)) = subscription_tbl ?db1"
    unfolding tbl2 tbl1 by simp
  from r1 r2 st same show ?thesis by blast
qed

text \<open>Two deliveries for cus_1 of the concrete database, at different times.\<close>

theorem C6_replay_idempotent_witness:
  "delivers demo_env (demo_request ''subscription'') (subscription_updated demo_subscription)
   \<and> delivers (demo_env\<lparr>now := 1700000999999\<rparr>) (demo_request ''subscription'')
        (subscription_updated demo_subscription)
   \<and> (\<exists>r \<in> set (subscription_tbl demo_db).
         sub_customerId r = customerId_of (customer demo_subscription))
   \<and> map sub_state
        (subscription_tbl
          (snd (handler (demo_env\<lparr>now := 1700000999999\<rparr>) (demo_request ''subscription'')
            (snd (handler demo_env (demo_request ''subscription'') demo_db)))))
     = map sub_state
        (subscription_tbl (snd (handler demo_env (demo_request ''subscription'') demo_db)))"
proof -
  have d1: "delivers demo_env (demo_request ''subscription'') (subscription_updated demo_subscription)"
    by (simp add: delivers_def demo_env_def demo_request_def sig_of_def demo_constructEvent_def)
  have d2: "delivers (demo_env\<lparr>now := 1700000999999\<rparr>) (demo_request ''subscription'')
        (subscription_updated demo_subscription)"
    by (simp add: delivers_def demo_env_def demo_request_def sig_of_def demo_constructEvent_def)
  have r: "\<exists>r \<in> set (subscription_tbl demo_db).
      sub_customerId r = customerId_of (customer demo_subscription)"
    by (simp add: demo_db_def demo_subscription_def customerId_of_def)
  from C6_replay_idempotent[OF d1 d2 r] d1 d2 r show ?thesis by blast
qed

text \<open>
  C7. A delivered customer.subscription.updated event whose customer id, as a plain
  identifier, is the key of no subscription row: the RecordNotFound failure of the
  update leaves the handler as a thrown error, no response is sent, and the database is
  the one before but for the record of the attempted call; no subscription row changes.
\<close>

theorem C7_unknown_customer:
  assumes "delivers env req (subscription_updated subscription)"
    and "\<forall>r \<in> set (subscription_tbl db).
           sub_customerId r \<noteq> customerId_of (customer subscription)"
  shows "handler env req db =
           (Inl RecordNotFound,
            db\<lparr>db_trace := db_trace db
                  @ [SubscriptionUpdate (customerId_of (customer subscription))]\<rparr>)
       \<and> subscription_tbl (snd (handler env req db)) = subscription_tbl db"
  by (simp add: handler_subscription[OF assms(1)] hcsu_missing[OF assms(2)] logged_def)

text \<open>The customer cus_404, given as an object, against the concrete database.\<close>

theorem C7_unknown_customer_witness:
  "delivers demo_env (demo_request ''unknown customer'')
     (subscription_updated demo_unknown_subscription)
   \<and> customerId_of (customer demo_unknown_subscription) = ''cus_404''
   \<and> map sub_customerId (subscription_tbl demo_db) = [''cus_1'', ''cus_2'']
   \<and> handler demo_env (demo_request ''unknown customer'') demo_db =
       (Inl RecordNotFound, demo_db\<lparr>db_trace := [SubscriptionUpdate ''cus_404'']\<rparr>)"
proof -
  have d: "delivers demo_env (demo_request ''unknown customer'')
     (subscription_updated demo_unknown_subscription)"
    by (simp add: delivers_def demo_env_def demo_request_def sig_of_def demo_constructEvent_def)
  have r: "\<forall>r \<in> set (subscription_tbl demo_db).
      sub_customerId r \<noteq> customerId_of (customer demo_unknown_subscription)"
    by (simp add: demo_db_def demo_unknown_subscription_def customerId_of_def)
  have c: "customerId_of (customer demo_unknown_subscription) = ''cus_404''"
    by (simp add: demo_unknown_subscription_def customerId_of_def)
  have t: "db_trace demo_db = []" by (simp add: demo_db_def)
  have k: "map sub_customerId (subscription_tbl demo_db) = [''cus_1'', ''cus_2'']"
    by (simp add: demo_db_def)
  from C7_unknown_customer[OF d r] d c k show ?thesis unfolding c t by simp
qed

subsection \<open>Rejected requests\<close>

text \<open>
  C1, as stated, fails for an invalid signature: the exception of the verification
  primitive is not caught, so the handler sends no 400 response; it ends in the thrown
  error. Here the header is "forged" while the secret is "whsec".
\<close>

theorem C1_invalid_signature_counterexample:
  "sig_of demo_forged_request = ''forged''
   \<and> constructEvent demo_env (body demo_forged_request) ''forged''
        (NEXT_PRIVATE_STRIPE_WEBHOOK_SECRET demo_env) = None
   \<and> handler demo_env demo_forged_request demo_db
       = (Inl StripeSignatureVerificationError, demo_db)"
  by (simp add: handler_def sig_of_def demo_forged_request_def demo_env_def
      demo_constructEvent_def Let_def)

text \<open>
  C1, amended. A request without the signature header (or with an empty or
  array-valued one) is answered with HTTP 400, success false and the message
  "No signature found in request". A request whose signature the verification primitive
  rejects ends in the primitive's exception, which leaves the handler uncaught. In both
  cases the database is returned as it was, the record of Prisma calls included: nothing
  is read or written.
\<close>

theorem C1_rejected_requests:
  "(headers req ''stripe-signature'' = None \<longrightarrow> sig_of req = [])
   \<and> (sig_of req = [] \<longrightarrow>
        handler env req db =
          (Inr \<lparr>res_status = 400, res_success = False,
                res_message = ''No signature found in request''\<rparr>, db))
   \<and> (sig_of req \<noteq> [] \<and>
       constructEvent env (body req) (sig_of req) (NEXT_PRIVATE_STRIPE_WEBHOOK_SECRET env) = None
       \<longrightarrow> handler env req db = (Inl StripeSignatureVerificationError, db))"
  by (simp add: handler_def sig_of_def json_def Let_def)

text \<open>A request without headers, and the forged one.\<close>

theorem C1_rejected_requests_witness:
  "headers demo_unsigned_request ''stripe-signature'' = None
   \<and> handler demo_env demo_unsigned_request demo_db =
          (Inr \<lparr>res_status = 400, res_success = False,
                res_message = ''No signature found in request''\<rparr>, demo_db)
   \<and> sig_of demo_forged_request \<noteq> []
   \<and> constructEvent demo_env (body demo_forged_request) (sig_of demo_forged_request)
        (NEXT_PRIVATE_STRIPE_WEBHOOK_SECRET demo_env) = None
   \<and> handler demo_env demo_forged_request demo_db
       = (Inl StripeSignatureVerificationError, demo_db)"
proof -
  have a: "headers demo_unsigned_request ''stripe-signature'' = None"
    by (simp add: demo_unsigned_request_def)
  have b: "sig_of demo_forged_request \<noteq> []"
    by (simp add: sig_of_def demo_forged_request_def)
  have c: "constructEvent demo_env (body demo_forged_request) (sig_of demo_forged_request)
        (NEXT_PRIVATE_STRIPE_WEBHOOK_SECRET demo_env) = None"
    by (simp add: sig_of_def demo_forged_request_def demo_env_def demo_constructEvent_def)
  from C1_rejected_requests[of demo_unsigned_request demo_env demo_db]
       C1_rejected_requests[of demo_forged_request demo_env demo_db] a b c
  show ?thesis by simp
qed

subsection \<open>Checkout sessions from another source\<close>

text \<open>
  C8. A delivered checkout.session.completed event whose metadata is null, has no
  "source" or has a source other than "landing" is answered with HTTP 200, success
  true, "Webhook received", and the database is returned as it was: no Document,
  DocumentData, Recipient, Field or Signature row is created and no Prisma call is made.
\<close>

theorem C8_other_source:
  assumes "delivers env req (checkout_completed session)"
    and "meta session ''source'' \<noteq> Some ''landing''"
  shows "handler env req db =
           (Inr \<lparr>res_status = 200, res_success = True, res_message = ''Webhook received''\<rparr>, db)"
  using assms(2) by (simp add: handler_checkout[OF assms(1)] json_def)

text \<open>The session with source "app".\<close>

theorem C8_other_source_witness:
  "delivers demo_env (demo_request ''other'') (checkout_completed demo_session_other)
   \<and> meta demo_session_other ''source'' \<noteq> Some ''landing''
   \<and> handler demo_env (demo_request ''other'') demo_db =
       (Inr \<lparr>res_status = 200, res_success = True, res_message = ''Webhook received''\<rparr>, demo_db)"
proof -
  have d: "delivers demo_env (demo_request ''other'') (checkout_completed demo_session_other)"
    by (simp add: delivers_def demo_env_def demo_request_def sig_of_def demo_constructEvent_def)
  have m: "meta demo_session_other ''source'' \<noteq> Some ''landing''"
    by (simp add: meta_def demo_session_other_def)
  from C8_other_source[OF d m] d m show ?thesis by simp
qed

subsection \<open>Provisioning runs\<close>

text \<open>
  What the handler returns on a landing run: the response, the five created rows, the
  DocumentData row with the signed content, and the Prisma calls in their order.
\<close>

lemma landing_outcome:
  assumes "landing_run env req db session user"
  shows "handler env req db =
     (Inr \<lparr>res_status = 200, res_success = True, res_message = ''Webhook received''\<rparr>,
      db\<lparr>documentData_tbl :=
           documentData_tbl db @ [created_documentData env db (signed_data env session user db)],
         document_tbl := document_tbl db @ [created_document user db],
         recipient_tbl := recipient_tbl db @ [created_recipient env user db],
         field_tbl := field_tbl db @ [created_field db],
         signature_tbl := signature_tbl db @ [created_signature env session user db],
         db_trace := db_trace db @
           [UserFindFirst (Number_js env (client_reference_id session)),
            DocumentDataCreate (created_documentData env db (bytes64_of env)),
            DocumentCreate (created_document user db),
            RecipientCreate (created_recipient env user db),
            FieldCreate (created_field db),
            SignatureCreate (created_signature env session user db),
            DocumentUpdate (next_id (map doc_id (document_tbl db)))
              (signed_data env session user db)]\<rparr>)"
  unfolding handler_landing[OF assms] provision_eq
  by (simp add: logged_def json_def created_documentData_def created_document_def
      created_recipient_def created_field_def created_signature_def signed_data_def)

text \<open>The two PDF routines are called at the position and page of the created field.\<close>

lemma signed_data_eq:
  "signed_data env session user db =
     (if signatureDataUrl_of env session \<noteq> []
      then insertImageInPDF env (bytes64_of env) (signatureDataUrl_of env session) 77 638 0
      else insertTextInPDF env (bytes64_of env) (or_empty (signatureText_of session user))
             77 638 0)"
  by (simp add: signed_data_def insert_mark_def created_field_def)

text \<open>A reference with a non-empty entry in the cache resolves to that entry.\<close>

lemma resolved_image:
  assumes "meta session ''signatureDataUrl'' = Some ref" and "ref \<noteq> []"
    and "redis_get env (''signature:'' @ ref) = Some img" and "img \<noteq> []"
  shows "signatureDataUrl_of env session = img"
  using assms by (simp add: signatureDataUrl_of_def truthy_def or_empty_def Let_def)

text \<open>
  A \<open>prisma.signature.create\<close> among the calls of one run of the handler, on any request
  and any database, is the one of a landing run.
\<close>

lemma created_signatures:
  assumes "SignatureCreate s \<in> set (drop (length (db_trace db)) (db_trace (snd (handler env req db))))"
  shows "\<exists>session user. landing_run env req db session user
           \<and> s = created_signature env session user db"
proof (cases "sig_of req = []")
  case True
  with assms show ?thesis by (simp add: handler_def Let_def)
next
  case sg: False
  show ?thesis
  proof (cases "constructEvent env (body req) (sig_of req) (NEXT_PRIVATE_STRIPE_WEBHOOK_SECRET env)")
    case None
    with assms sg show ?thesis by (simp add: handler_def Let_def)
  next
    case (Some ev)
    show ?thesis
    proof (cases "event_type ev = ''checkout.session.completed''
                  \<and> (\<exists>session. event_object ev = SessionObject session
                        \<and> meta session ''source'' = Some ''landing''
                        \<and> fst (user_findFirst (Number_js env (client_reference_id session)) db) \<noteq> None)")
      case True
      then obtain session user where
        t: "event_type ev = ''checkout.session.completed''" and
        ob: "event_object ev = SessionObject session" and
        src: "meta session ''source'' = Some ''landing''" and
        u: "fst (user_findFirst (Number_js env (client_reference_id session)) db) = Some user"
        by auto
      have "ev = checkout_completed session"
        using t ob by (simp add: checkout_completed_def)
      with Some sg src u have run: "landing_run env req db session user"
        by (simp add: landing_run_def delivers_def)
      from assms have "s = created_signature env session user db"
        unfolding landing_outcome[OF run] by simp
      with run show ?thesis by blast
    next
      case False
      have "\<not> SignatureCreate s \<in> set (drop (length (db_trace db)) (db_trace (snd (handler env req db))))"
        using False sg Some
        by (auto simp: handler_def Let_def handleCustomerSubscriptionUpdated_def
            subscription_update_def logged_def user_findFirst_def
            split: EventObject.splits option.splits)
      with assms show ?thesis by simp
    qed
  qed
qed

subsection \<open>The concrete requests\<close>

lemma demo_landing_image:
  "landing_run demo_env (demo_request ''image'') demo_db demo_session_image demo_user_ada"
  by (simp add: landing_run_def delivers_def demo_env_def demo_request_def sig_of_def
      demo_constructEvent_def meta_def demo_session_image_def user_findFirst_def demo_db_def
      demo_user_ada_def demo_user_anonymous_def)

lemma demo_landing_text:
  "landing_run demo_env (demo_request ''text'') demo_db demo_session_text demo_user_ada"
  by (simp add: landing_run_def delivers_def demo_env_def demo_request_def sig_of_def
      demo_constructEvent_def meta_def demo_session_text_def user_findFirst_def demo_db_def
      demo_user_ada_def demo_user_anonymous_def)

lemma demo_landing_anonymous:
  "landing_run demo_env (demo_request ''anonymous'') demo_db demo_session_anonymous
     demo_user_anonymous"
  by (simp add: landing_run_def delivers_def demo_env_def demo_request_def sig_of_def
      demo_constructEvent_def meta_def demo_session_anonymous_def user_findFirst_def demo_db_def
      demo_user_ada_def demo_user_anonymous_def)

lemma demo_image_resolved:
  "signatureDataUrl_of demo_env demo_session_image = ''data:image/png;base64,iVBOR''"
  by (simp add: signatureDataUrl_of_def meta_def demo_session_image_def demo_env_def truthy_def
      or_empty_def)

lemma demo_text_unresolved: "signatureDataUrl_of demo_env demo_session_text = []"
  by (simp add: signatureDataUrl_of_def meta_def demo_session_text_def demo_env_def truthy_def
      or_empty_def)

lemma demo_anonymous_unresolved: "signatureDataUrl_of demo_env demo_session_anonymous = []"
  by (simp add: signatureDataUrl_of_def meta_def demo_session_anonymous_def truthy_def)

lemma demo_anonymous_signatures:
  "signature_tbl (snd (handler demo_env (demo_request ''anonymous'') demo_db)) =
     [\<lparr>sig_id = 1, sig_fieldId = 1, sig_recipientId = 1, sig_signatureImageAsBase64 = None,
       sig_typedSignature = None\<rparr>]"
proof -
  have st: "signatureText_of demo_session_anonymous demo_user_anonymous = None"
    by (simp add: signatureText_of_def js_or_def truthy_def meta_def demo_session_anonymous_def
        demo_user_anonymous_def)
  show ?thesis
    unfolding landing_outcome[OF demo_landing_anonymous]
    by (simp add: created_signature_def demo_anonymous_unresolved st demo_db_def next_id_def)
qed

subsection \<open>The signature artifact\<close>

text \<open>
  C2, as stated, fails: for a landing event without \<open>signatureText\<close> whose user has no
  stored name (the column is nullable: line 133 reads \<open>user.name ?? ''\<close>), and without
  an image, the Signature is created with a null typed text, which is not non-empty.
\<close>

theorem C2_typed_signature_counterexample:
  "landing_run demo_env (demo_request ''anonymous'') demo_db demo_session_anonymous
     demo_user_anonymous
   \<and> signatureDataUrl_of demo_env demo_session_anonymous = []
   \<and> meta demo_session_anonymous ''signatureText'' = None
   \<and> user_name demo_user_anonymous = None
   \<and> map sig_typedSignature
        (signature_tbl (snd (handler demo_env (demo_request ''anonymous'') demo_db))) = [None]"
  using demo_landing_anonymous demo_anonymous_unresolved
  by (simp add: demo_anonymous_signatures meta_def demo_session_anonymous_def
      demo_user_anonymous_def)

text \<open>
  C2, amended. On a landing run with no resolvable signature image, the handler answers
  HTTP 200 and creates one Signature whose typed text is the metadata's \<open>signatureText\<close>
  when that is a non-empty string and the user's stored name otherwise (null when the
  user has none), and whose image is absent. The typed text is non-empty exactly when
  the \<open>signatureText\<close> or the stored name is.
\<close>

theorem C2_typed_signature:
  assumes "landing_run env req db session user"
    and "signatureDataUrl_of env session = []"
  shows "fst (handler env req db) =
           Inr \<lparr>res_status = 200, res_success = True, res_message = ''Webhook received''\<rparr>
       \<and> (\<exists>s. signature_tbl (snd (handler env req db)) = signature_tbl db @ [s]
            \<and> sig_typedSignature s =
                (if truthy (meta session ''signatureText'') then meta session ''signatureText''
                 else user_name user)
            \<and> sig_signatureImageAsBase64 s = None
            \<and> (truthy (sig_typedSignature s) \<longleftrightarrow>
                 truthy (meta session ''signatureText'') \<or> truthy (user_name user)))"
  unfolding landing_outcome[OF assms(1)]
  by (simp add: created_signature_def assms(2) signatureText_of_def js_or_def)

text \<open>The user Ada, a reference that is not in the cache, no \<open>signatureText\<close>.\<close>

theorem C2_typed_signature_witness:
  "landing_run demo_env (demo_request ''text'') demo_db demo_session_text demo_user_ada
   \<and> signatureDataUrl_of demo_env demo_session_text = []
   \<and> (\<exists>s. signature_tbl (snd (handler demo_env (demo_request ''text'') demo_db)) = [s]
         \<and> sig_typedSignature s = Some ''Ada''
         \<and> sig_signatureImageAsBase64 s = None
         \<and> truthy (sig_typedSignature s))"
  using C2_typed_signature[OF demo_landing_text demo_text_unresolved]
    demo_landing_text demo_text_unresolved
  by (simp add: meta_def demo_session_text_def demo_user_ada_def truthy_def demo_db_def)

text \<open>
  C3. On a landing run whose metadata carries a reference with a non-empty entry in the
  cache, the handler answers HTTP 200 and creates one Signature with that entry as its
  non-empty image and the empty string as its typed text; the DocumentData row created
  keeps the template in \<open>initialData\<close> and has in \<open>data\<close> what \<open>insertImageInPDF\<close>
  returned for the template, the image, (77, 638) and page 0, which differs from the
  template by the contract of that routine.
\<close>

theorem C3_image_signature:
  assumes "landing_run env req db session user"
    and "meta session ''signatureDataUrl'' = Some ref" and "ref \<noteq> []"
    and "redis_get env (''signature:'' @ ref) = Some img" and "img \<noteq> []"
    and "image_insertion_produces_new_content env"
  shows "fst (handler env req db) =
           Inr \<lparr>res_status = 200, res_success = True, res_message = ''Webhook received''\<rparr>
       \<and> (\<exists>s. signature_tbl (snd (handler env req db)) = signature_tbl db @ [s]
            \<and> sig_signatureImageAsBase64 s = Some img
            \<and> truthy (sig_signatureImageAsBase64 s)
            \<and> sig_typedSignature s = Some []
            \<and> \<not> truthy (sig_typedSignature s))
       \<and> (\<exists>d. documentData_tbl (snd (handler env req db)) = documentData_tbl db @ [d]
            \<and> dd_initialData d = bytes64_of env
            \<and> dd_data d = insertImageInPDF env (bytes64_of env) img 77 638 0
            \<and> dd_data d \<noteq> dd_initialData d)"
proof -
  have u: "signatureDataUrl_of env session = img"
    using assms(2-5) by (rule resolved_image)
  have n: "insertImageInPDF env (bytes64_of env) img 77 638 0 \<noteq> bytes64_of env"
    using assms(6) unfolding image_insertion_produces_new_content_def by blast
  show ?thesis
    unfolding landing_outcome[OF assms(1)]
    using n assms(5)
    by (simp add: created_signature_def created_documentData_def signed_data_eq u truthy_def)
qed

text \<open>The reference ref1 of the concrete cache.\<close>

theorem C3_image_signature_witness:
  "landing_run demo_env (demo_request ''image'') demo_db demo_session_image demo_user_ada
   \<and> meta demo_session_image ''signatureDataUrl'' = Some ''ref1''
   \<and> redis_get demo_env (''signature:'' @ ''ref1'') = Some ''data:image/png;base64,iVBOR''
   \<and> image_insertion_produces_new_content demo_env
   \<and> (\<exists>s. signature_tbl (snd (handler demo_env (demo_request ''image'') demo_db)) = [s]
         \<and> sig_signatureImageAsBase64 s = Some ''data:image/png;base64,iVBOR''
         \<and> sig_typedSignature s = Some [])
   \<and> (\<exists>d. documentData_tbl (snd (handler demo_env (demo_request ''image'') demo_db)) = [d]
         \<and> dd_initialData d = ''JVBERi0xLjc=''
         \<and> dd_data d = ''JVBERi0xLjc=+image'')"
proof -
  have m: "meta demo_session_image ''signatureDataUrl'' = Some ''ref1''"
    by (simp add: meta_def demo_session_image_def)
  have r: "''ref1'' \<noteq> []" by simp
  have g: "redis_get demo_env (''signature:'' @ ''ref1'') = Some ''data:image/png;base64,iVBOR''"
    by (simp add: demo_env_def)
  have i: "''data:image/png;base64,iVBOR'' \<noteq> []" by simp
  have c: "image_insertion_produces_new_content demo_env"
    by (simp add: image_insertion_produces_new_content_def demo_env_def)
  have b: "bytes64_of demo_env = ''JVBERi0xLjc=''"
    by (simp add: bytes64_of_def demo_env_def)
  have ins: "insertImageInPDF demo_env ''JVBERi0xLjc='' ''data:image/png;base64,iVBOR'' 77 638 0
      = ''JVBERi0xLjc=+image''"
    by (simp add: demo_env_def)
  have t: "signature_tbl demo_db = []" "documentData_tbl demo_db = []"
    by (simp_all add: demo_db_def)
  from C3_image_signature[OF demo_landing_image m r g i c] demo_landing_image m g c
  show ?thesis unfolding b ins t by auto
qed

text \<open>
  C4, as stated, fails on the same request as C2: the Signature created for the user
  without a name has neither an image nor a typed text.
\<close>

theorem C4_signature_artifacts_counterexample:
  "signature_tbl (snd (handler demo_env (demo_request ''anonymous'') demo_db)) =
     [\<lparr>sig_id = 1, sig_fieldId = 1, sig_recipientId = 1, sig_signatureImageAsBase64 = None,
       sig_typedSignature = None\<rparr>]
   \<and> \<not> truthy None"
  by (simp add: demo_anonymous_signatures truthy_def)

text \<open>
  C4, amended. Over all requests and databases, a Signature created by the handler never
  has both the image and the typed text populated. On a landing run the image is
  populated exactly when the reference resolved, the typed text exactly when it did not
  and the \<open>signatureText\<close> or the user's stored name is non-empty; so exactly one of the
  two is populated if and only if the image resolved or one of the two texts is
  non-empty.
\<close>

theorem C4_signature_artifacts:
  "(SignatureCreate s \<in> set (drop (length (db_trace db)) (db_trace (snd (handler env req db))))
      \<longrightarrow> \<not> (truthy (sig_signatureImageAsBase64 s) \<and> truthy (sig_typedSignature s)))
   \<and> (landing_run env req db session user \<longrightarrow>
        (\<exists>s'. signature_tbl (snd (handler env req db)) = signature_tbl db @ [s']
           \<and> (truthy (sig_signatureImageAsBase64 s') \<longleftrightarrow> signatureDataUrl_of env session \<noteq> [])
           \<and> (truthy (sig_typedSignature s') \<longleftrightarrow>
                 signatureDataUrl_of env session = []
                 \<and> (truthy (meta session ''signatureText'') \<or> truthy (user_name user)))
           \<and> (truthy (sig_signatureImageAsBase64 s') \<noteq> truthy (sig_typedSignature s') \<longleftrightarrow>
                 signatureDataUrl_of env session \<noteq> []
                 \<or> truthy (meta session ''signatureText'') \<or> truthy (user_name user))))"
proof -
  have a: "\<not> (truthy (sig_signatureImageAsBase64 s) \<and> truthy (sig_typedSignature s))"
    if "SignatureCreate s \<in> set (drop (length (db_trace db)) (db_trace (snd (handler env req db))))"
  proof -
    from created_signatures[OF that] obtain session' user' where
      "s = created_signature env session' user' db" by blast
    then show ?thesis by (simp add: created_signature_def truthy_def)
  qed
  have b: "\<exists>s'. signature_tbl (snd (handler env req db)) = signature_tbl db @ [s']
           \<and> (truthy (sig_signatureImageAsBase64 s') \<longleftrightarrow> signatureDataUrl_of env session \<noteq> [])
           \<and> (truthy (sig_typedSignature s') \<longleftrightarrow>
                 signatureDataUrl_of env session = []
                 \<and> (truthy (meta session ''signatureText'') \<or> truthy (user_name user)))
           \<and> (truthy (sig_signatureImageAsBase64 s') \<noteq> truthy (sig_typedSignature s') \<longleftrightarrow>
                 signatureDataUrl_of env session \<noteq> []
                 \<or> truthy (meta session ''signatureText'') \<or> truthy (user_name user))"
    if run: "landing_run env req db session user"
    unfolding landing_outcome[OF run]
    by (auto simp: created_signature_def signatureText_of_def js_or_def truthy_def)
  from a b show ?thesis by blast
qed

text \<open>The Signature with an image of the concrete run.\<close>

theorem C4_signature_artifacts_witness:
  "landing_run demo_env (demo_request ''image'') demo_db demo_session_image demo_user_ada
   \<and> (\<exists>s'. signature_tbl (snd (handler demo_env (demo_request ''image'') demo_db)) = [s']
         \<and> truthy (sig_signatureImageAsBase64 s') \<and> \<not> truthy (sig_typedSignature s'))
   \<and> SignatureCreate
        \<lparr>sig_id = 1, sig_fieldId = 1, sig_recipientId = 1,
         sig_signatureImageAsBase64 = Some ''data:image/png;base64,iVBOR'',
         sig_typedSignature = Some []\<rparr>
      \<in> set (drop (length (db_trace demo_db))
               (db_trace (snd (handler demo_env (demo_request ''image'') demo_db))))
   \<and> \<not> (truthy (Some ''data:image/png;base64,iVBOR'') \<and> truthy (Some []))"
proof -
  let ?s = "\<lparr>sig_id = 1, sig_fieldId = 1, sig_recipientId = 1,
         sig_signatureImageAsBase64 = Some ''data:image/png;base64,iVBOR'',
         sig_typedSignature = Some []\<rparr>"
  have t: "signature_tbl demo_db = []" by (simp add: demo_db_def)
  have c: "created_signature demo_env demo_session_image demo_user_ada demo_db = ?s"
    by (simp add: created_signature_def demo_image_resolved demo_db_def next_id_def)
  have mem: "SignatureCreate ?s
      \<in> set (drop (length (db_trace demo_db))
               (db_trace (snd (handler demo_env (demo_request ''image'') demo_db))))"
    unfolding landing_outcome[OF demo_landing_image] by (simp add: c)
  from C4_signature_artifacts[of ?s demo_db demo_env "demo_request ''image''"
         demo_session_image demo_user_ada] demo_landing_image mem
  show ?thesis unfolding t by (auto simp: demo_image_resolved)
qed

subsection \<open>Document content and the field\<close>

text \<open>
  C9. On a landing run the handler answers HTTP 200; the DocumentData row is created
  with \<open>data\<close> and \<open>initialData\<close> both equal to the template in base64; the last call
  replaces the \<open>data\<close> of that row, and of no other, with the signed content (the image
  or the text drawn into the template); \<open>initialData\<close> still is the template.
\<close>

theorem C9_document_data:
  assumes "landing_run env req db session user"
  shows "fst (handler env req db) =
           Inr \<lparr>res_status = 200, res_success = True, res_message = ''Webhook received''\<rparr>
       \<and> (\<exists>d doc r f s signed.
            db_trace (snd (handler env req db)) = db_trace db @
              [UserFindFirst (Number_js env (client_reference_id session)),
               DocumentDataCreate d, DocumentCreate doc, RecipientCreate r, FieldCreate f,
               SignatureCreate s, DocumentUpdate (doc_id doc) signed]
            \<and> dd_data d = bytes64_of env \<and> dd_initialData d = bytes64_of env
            \<and> doc_documentDataId doc = dd_id d
            \<and> signed =
                (if signatureDataUrl_of env session \<noteq> []
                 then insertImageInPDF env (bytes64_of env) (signatureDataUrl_of env session)
                        77 638 0
                 else insertTextInPDF env (bytes64_of env)
                        (or_empty (signatureText_of session user)) 77 638 0)
            \<and> documentData_tbl (snd (handler env req db))
                = documentData_tbl db @ [d\<lparr>dd_data := signed\<rparr>]
            \<and> dd_initialData (d\<lparr>dd_data := signed\<rparr>) = bytes64_of env)"
  unfolding landing_outcome[OF assms]
  by (simp add: created_documentData_def created_document_def signed_data_eq)

text \<open>The typed-text run on the concrete database.\<close>

theorem C9_document_data_witness:
  "landing_run demo_env (demo_request ''text'') demo_db demo_session_text demo_user_ada
   \<and> fst (handler demo_env (demo_request ''text'') demo_db) =
       Inr \<lparr>res_status = 200, res_success = True, res_message = ''Webhook received''\<rparr>
   \<and> documentData_tbl (snd (handler demo_env (demo_request ''text'') demo_db)) =
       [\<lparr>dd_id = 1, dd_type = BYTES_64, dd_data = ''JVBERi0xLjc=+text'',
         dd_initialData = ''JVBERi0xLjc=''\<rparr>]
   \<and> DocumentDataCreate
        \<lparr>dd_id = 1, dd_type = BYTES_64, dd_data = ''JVBERi0xLjc='',
         dd_initialData = ''JVBERi0xLjc=''\<rparr>
      \<in> set (db_trace (snd (handler demo_env (demo_request ''text'') demo_db)))"
proof -
  have b: "bytes64_of demo_env = ''JVBERi0xLjc=''"
    by (simp add: bytes64_of_def demo_env_def)
  have t: "documentData_tbl demo_db = []" "db_trace demo_db = []"
    by (simp_all add: demo_db_def)
  have drawn: "insertTextInPDF demo_env ''JVBERi0xLjc=''
               (or_empty (signatureText_of demo_session_text demo_user_ada)) 77 638 0
             = ''JVBERi0xLjc=+text''"
    by (simp add: demo_env_def)
  have o: "documentData_tbl (snd (handler demo_env (demo_request ''text'') demo_db)) =
       [\<lparr>dd_id = 1, dd_type = BYTES_64, dd_data = ''JVBERi0xLjc=+text'',
         dd_initialData = ''JVBERi0xLjc=''\<rparr>]"
    unfolding landing_outcome[OF demo_landing_text]
    by (simp add: created_documentData_def signed_data_eq demo_text_unresolved b t next_id_def
        drawn)
  have c: "DocumentDataCreate
        \<lparr>dd_id = 1, dd_type = BYTES_64, dd_data = ''JVBERi0xLjc='',
         dd_initialData = ''JVBERi0xLjc=''\<rparr>
      \<in> set (db_trace (snd (handler demo_env (demo_request ''text'') demo_db)))"
    unfolding landing_outcome[OF demo_landing_text]
    by (simp add: created_documentData_def b t next_id_def)
  from C9_document_data[OF demo_landing_text] demo_landing_text o c
  show ?thesis by blast
qed

text \<open>
  C10. On a landing run one Field is created, of type SIGNATURE, on page 0 at (77, 638),
  with \<open>inserted\<close> false and an empty \<open>customText\<close>. The calls after its creation are
  the creation of the Signature and the update of the document's data, so the field
  table still holds the row as created, \<open>inserted\<close> false, while the DocumentData has the
  signer's mark drawn at the field's position.
\<close>

theorem C10_field_not_updated:
  assumes "landing_run env req db session user"
  shows "\<exists>f d doc r s signed.
           field_tbl (snd (handler env req db)) = field_tbl db @ [f]
         \<and> fld_type f = SIGNATURE \<and> fld_page f = 0
         \<and> fld_positionX f = 77 \<and> fld_positionY f = 638
         \<and> fld_inserted f = False \<and> fld_customText f = []
         \<and> db_trace (snd (handler env req db)) = db_trace db @
              [UserFindFirst (Number_js env (client_reference_id session)),
               DocumentDataCreate d, DocumentCreate doc, RecipientCreate r, FieldCreate f,
               SignatureCreate s, DocumentUpdate (doc_id doc) signed]
         \<and> documentData_tbl (snd (handler env req db))
             = documentData_tbl db @ [d\<lparr>dd_data := signed\<rparr>]
         \<and> signed = insert_mark env (signatureDataUrl_of env session)
                      (signatureText_of session user) f (bytes64_of env)"
  unfolding landing_outcome[OF assms]
  by (simp add: created_field_def created_documentData_def created_document_def signed_data_def)

text \<open>The image run on the concrete database.\<close>

theorem C10_field_not_updated_witness:
  "landing_run demo_env (demo_request ''image'') demo_db demo_session_image demo_user_ada
   \<and> (\<exists>f. field_tbl (snd (handler demo_env (demo_request ''image'') demo_db)) = [f]
         \<and> fld_type f = SIGNATURE \<and> fld_page f = 0
         \<and> fld_positionX f = 77 \<and> fld_positionY f = 638
         \<and> fld_inserted f = False \<and> fld_customText f = [])"
proof -
  have t: "field_tbl demo_db = []" by (simp add: demo_db_def)
  from C10_field_not_updated[OF demo_landing_image] demo_landing_image
  show ?thesis unfolding t by auto
qed

end
